theory Spec2Isabelle
  imports Complex_Main
begin

section \<open>The routes of the wagering backend\<close>

text \<open>
  The development covers the code that moves coins and markets: in routes/admin.js the
  routes add-coins, auto-resolve and resolve-bet, in routes/bet.js the function
  syncEflCupOddsToDB and the route place. Each is a function from the request and the
  store to the answer and the store it leaves. The admin key, registration and login,
  the socket notifications, the add-game route and the cooldown of the games route are
  outside it. Requests are handled one at a time: two requests interleaving their
  statements is not part of the model, a statement that throws is.
\<close>

section \<open>Numbers and strings of the JavaScript side\<close>

text \<open>
  The routes compute with JavaScript numbers and hand them to the store, whose arithmetic
  (\<^verbatim>\<open>COALESCE(coins,0) + $1\<close>) treats the special values the same way. A number is a
  finite quantity or one of the three special values. Finite quantities are exact
  rationals: the rounding of doubles is not part of this model.
\<close>

datatype jsnum = Fin rat | PInf | NInf | NaN

fun js_add :: "jsnum \<Rightarrow> jsnum \<Rightarrow> jsnum" where
  "js_add (Fin a) (Fin b) = Fin (a + b)"
| "js_add NaN _ = NaN"
| "js_add _ NaN = NaN"
| "js_add PInf NInf = NaN"
| "js_add NInf PInf = NaN"
| "js_add PInf _ = PInf"
| "js_add _ PInf = PInf"
| "js_add NInf _ = NInf"
| "js_add _ NInf = NInf"

fun js_neg :: "jsnum \<Rightarrow> jsnum" where
  "js_neg (Fin a) = Fin (- a)"
| "js_neg PInf = NInf"
| "js_neg NInf = PInf"
| "js_neg NaN = NaN"

definition js_sub :: "jsnum \<Rightarrow> jsnum \<Rightarrow> jsnum" where
  "js_sub a b = js_add a (js_neg b)"

text \<open>The sign of a number that is not NaN: \<open>-1\<close>, \<open>0\<close> or \<open>1\<close>.\<close>

fun js_sign :: "jsnum \<Rightarrow> int" where
  "js_sign (Fin a) = (if a < 0 then - 1 else if a = 0 then 0 else 1)"
| "js_sign PInf = 1"
| "js_sign NInf = - 1"
| "js_sign NaN = 0"

definition js_mul :: "jsnum \<Rightarrow> jsnum \<Rightarrow> jsnum" where
  "js_mul a b =
     (case (a, b) of
        (Fin x, Fin y) \<Rightarrow> Fin (x * y)
      | _ \<Rightarrow>
          if a = NaN \<or> b = NaN then NaN
          else if js_sign a * js_sign b = 0 then NaN
          else if js_sign a * js_sign b < 0 then NInf else PInf)"

fun js_lt :: "jsnum \<Rightarrow> jsnum \<Rightarrow> bool" where
  "js_lt (Fin a) (Fin b) = (a < b)"
| "js_lt NaN _ = False"
| "js_lt _ NaN = False"
| "js_lt _ NInf = False"
| "js_lt PInf _ = False"
| "js_lt NInf _ = True"
| "js_lt _ PInf = True"

definition js_le :: "jsnum \<Rightarrow> jsnum \<Rightarrow> bool" where
  "js_le a b = (js_lt a b \<or> (a = b \<and> a \<noteq> NaN))"

definition isNaN :: "jsnum \<Rightarrow> bool" where
  "isNaN a = (a = NaN)"

text \<open>\<^verbatim>\<open>!x\<close> on a number is true for zero and NaN; on \<^verbatim>\<open>null\<close> it is true.\<close>

definition truthy :: "jsnum \<Rightarrow> bool" where
  "truthy a = (a \<noteq> Fin 0 \<and> a \<noteq> NaN)"

definition truthy_opt :: "jsnum option \<Rightarrow> bool" where
  "truthy_opt x = (case x of None \<Rightarrow> False | Some a \<Rightarrow> truthy a)"

text \<open>\<^verbatim>\<open>Math.max\<close> of two numbers: NaN as soon as one of them is.\<close>

definition js_max :: "jsnum \<Rightarrow> jsnum \<Rightarrow> jsnum" where
  "js_max a b = (if a = NaN \<or> b = NaN then NaN else if js_lt a b then b else a)"

text \<open>\<^verbatim>\<open>Number(x)\<close> of a nullable numeric column: \<^verbatim>\<open>Number(null)\<close> is \<open>0\<close>.\<close>

definition to_number :: "jsnum option \<Rightarrow> jsnum" where
  "to_number x = (case x of None \<Rightarrow> Fin 0 | Some a \<Rightarrow> a)"

text \<open>\<^verbatim>\<open>Number(x)\<close> of a request field: an absent field is \<^verbatim>\<open>undefined\<close>, whose number is NaN.\<close>

definition number_of_field :: "jsnum option \<Rightarrow> jsnum" where
  "number_of_field x = (case x of None \<Rightarrow> NaN | Some a \<Rightarrow> a)"

text \<open>\<^verbatim>\<open>COALESCE(coins, 0)\<close> of the store.\<close>

definition coalesce0 :: "jsnum option \<Rightarrow> jsnum" where
  "coalesce0 x = (case x of None \<Rightarrow> Fin 0 | Some a \<Rightarrow> a)"

text \<open>\<^verbatim>\<open>toLowerCase\<close>, on the ASCII letters.\<close>

definition lower_char :: "char \<Rightarrow> char" where
  "lower_char c =
     (case map_of (zip ''ABCDEFGHIJKLMNOPQRSTUVWXYZ'' ''abcdefghijklmnopqrstuvwxyz'') c of
        None \<Rightarrow> c
      | Some l \<Rightarrow> l)"

definition toLowerCase :: "string \<Rightarrow> string" where
  "toLowerCase s = map lower_char s"


section \<open>The store\<close>

text \<open>
  The three tables the routes query through \<^verbatim>\<open>pool.query\<close>, as lists of rows in insertion
  order. Columns a route never reads (name, email, created_at) are left out. A nullable
  column is an \<open>option\<close>. The schema is not part of the sources; the routes wrap every
  numeric column they read in \<^verbatim>\<open>Number(...)\<close>, as for a NUMERIC column that the driver
  hands over as a string, so \<^verbatim>\<open>x || 0\<close> and \<^verbatim>\<open>a && x\<close> on such a column test it for
  NULL only.
\<close>

record user =
  uid :: int
  coins :: "jsnum option"

datatype bet_status = Pending | Won | Lost

record bet =
  bid :: int
  user_id :: int
  b_game_name :: string
  b_game_type :: string
  bet_amount :: jsnum
  b_odds :: jsnum
  status :: bet_status
  selected_team :: string

record game =
  gid :: int
  external_id :: "string option"
  game_name :: string
  game_type :: string
  odds :: jsnum
  start_time :: "string option"
  team1_name :: "string option"
  team2_name :: "string option"
  team1_odds :: "jsnum option"
  team2_odds :: "jsnum option"
  draw_odds :: "jsnum option"
  has_draw :: bool

text \<open>
  \<open>next_bet_id\<close> and \<open>next_game_id\<close> are the sequences that number inserted rows.
\<close>

record db =
  users :: "user list"
  bets :: "bet list"
  games :: "game list"
  next_bet_id :: int
  next_game_id :: int

text \<open>
  Every \<^verbatim>\<open>await pool.query(...)\<close> either completes as one statement or throws, and the
  routes' \<^verbatim>\<open>catch\<close> answers 500 with whatever the earlier statements already wrote.
  \<open>faults\<close> says which statement throws: \<open>None\<close> is a store that never fails,
  \<open>Some n\<close> one that throws at statement \<open>n\<close>, counted from \<open>0\<close>. \<open>tick\<close> is taken once
  per statement and is \<open>None\<close> when that statement throws.
\<close>

type_synonym faults = "nat option"

fun tick :: "faults \<Rightarrow> faults option" where
  "tick None = Some None"
| "tick (Some 0) = None"
| "tick (Some (Suc n)) = Some (Some n)"

text \<open>
  The answer of a route: the body of a success, status 400 with its error message, or
  the status 500 of the \<^verbatim>\<open>catch\<close>. A statement's \<^verbatim>\<open>rows[0]\<close>, after the test
  \<^verbatim>\<open>rows.length === 0\<close>, is \<open>find\<close> of the statement's condition over the table: its
  first matching row, if there is one.
\<close>

datatype 'a response = Success 'a | Status400 string | Status500

text \<open>\<^verbatim>\<open>UPDATE users SET coins = COALESCE(coins,0) + $1 WHERE id = $2\<close>\<close>

definition credit :: "jsnum \<Rightarrow> int \<Rightarrow> user list \<Rightarrow> user list" where
  "credit amt i us =
     map (\<lambda>u. if uid u = i then u\<lparr>coins := Some (js_add (coalesce0 (coins u)) amt)\<rparr> else u) us"

text \<open>\<^verbatim>\<open>UPDATE users SET coins = COALESCE(coins,0) - $1 WHERE id = $2\<close>\<close>

definition debit :: "jsnum \<Rightarrow> int \<Rightarrow> user list \<Rightarrow> user list" where
  "debit amt i us =
     map (\<lambda>u. if uid u = i then u\<lparr>coins := Some (js_sub (coalesce0 (coins u)) amt)\<rparr> else u) us"

text \<open>\<^verbatim>\<open>UPDATE bets SET status = $1 WHERE id = $2\<close>\<close>

definition set_status :: "bet_status \<Rightarrow> int \<Rightarrow> bet list \<Rightarrow> bet list" where
  "set_status s i bs = map (\<lambda>b. if bid b = i then b\<lparr>status := s\<rparr> else b) bs"

text \<open>\<^verbatim>\<open>!x\<close> on an id of the request body: true when absent and when \<open>0\<close>.\<close>

definition missing_id :: "int option \<Rightarrow> bool" where
  "missing_id x = (case x of None \<Rightarrow> True | Some i \<Rightarrow> i = 0)"

section \<open>POST /admin/add-coins\<close>

text \<open>
  The body carries \<^verbatim>\<open>userId\<close> and the increment as \<^verbatim>\<open>amount\<close> or as \<^verbatim>\<open>coins\<close>
  (\<^verbatim>\<open>Number(amount ?? coins)\<close>); a field is \<open>None\<close> when the body does not have it.
\<close>

record add_coins_req =
  ac_userId :: "int option"
  ac_amount :: "jsnum option"
  ac_coins :: "jsnum option"

definition add_coins :: "faults \<Rightarrow> add_coins_req \<Rightarrow> db \<Rightarrow> user response \<times> db" where
  "add_coins f req d =
     (let inc = number_of_field (case ac_amount req of Some a \<Rightarrow> Some a | None \<Rightarrow> ac_coins req)
      in if missing_id (ac_userId req) \<or> isNaN inc
         then (Status400 ''Invalid userId or amount'', d)
         else (case tick f of
                 None \<Rightarrow> (Status500, d)
               | Some _ \<Rightarrow>
                   (let d' = d\<lparr>users := credit inc (the (ac_userId req)) (users d)\<rparr>
                    in case find (\<lambda>u. uid u = the (ac_userId req)) (users d') of
                         None \<Rightarrow> (Status400 ''User not found'', d')
                       | Some row \<Rightarrow> (Success row, d'))))"

section \<open>POST /admin/resolve-bet\<close>

text \<open>
  \<open>rb_result\<close> is the \<^verbatim>\<open>result\<close> field of the body, a string. The message of the first
  rejection is written without its quotation marks.
\<close>

record resolve_bet_req =
  rb_betId :: "int option"
  rb_result :: string

definition resolve_bet :: "faults \<Rightarrow> resolve_bet_req \<Rightarrow> db \<Rightarrow> bet option response \<times> db" where
  "resolve_bet f req d =
     (if missing_id (rb_betId req) \<or> (rb_result req \<noteq> ''won'' \<and> rb_result req \<noteq> ''lost'')
      then (Status400 ''result must be won or lost'', d)
      else (case tick f of
              None \<Rightarrow> (Status500, d)
            | Some f1 \<Rightarrow>
                (case find (\<lambda>b. bid b = the (rb_betId req)) (bets d) of
                   None \<Rightarrow> (Status400 ''Bet not found'', d)
                 | Some b \<Rightarrow>
                     (let credited =
                            (if rb_result req = ''won''
                             then (case tick f1 of
                                     None \<Rightarrow> None
                                   | Some f2 \<Rightarrow>
                                       Some (f2, d\<lparr>users := credit (js_mul (bet_amount b) (b_odds b))
                                                              (user_id b) (users d)\<rparr>))
                             else Some (f1, d))
                      in case credited of
                           None \<Rightarrow> (Status500, d)
                         | Some (f3, d1) \<Rightarrow>
                             (case tick f3 of
                                None \<Rightarrow> (Status500, d1)
                              | Some _ \<Rightarrow>
                                  (let d2 = d1\<lparr>bets := set_status (if rb_result req = ''won'' then Won else Lost)
                                                          (the (rb_betId req)) (bets d1)\<rparr>
                                   in (Success (find (\<lambda>b. bid b = the (rb_betId req)) (bets d2)), d2)))))))"

section \<open>POST /admin/auto-resolve\<close>

text \<open>
  A result of the scores feed: \<open>sc_score\<close> is \<^verbatim>\<open>Number(s.score)\<close> of the entry, and an
  event without scores has the empty list (\<^verbatim>\<open>ev.scores || []\<close>).
\<close>

record score_entry =
  sc_name :: string
  sc_score :: jsnum

record score_event =
  se_id :: string
  completed :: bool
  scores :: "score_entry list"

text \<open>
  The winning label: the first side's name when its score is higher, the second side's
  when that is higher, and the literal \<^verbatim>\<open>"Draw"\<close> otherwise.
\<close>

definition winningTeam :: "game \<Rightarrow> jsnum \<Rightarrow> jsnum \<Rightarrow> string option" where
  "winningTeam g team1Score team2Score =
     (if js_lt team2Score team1Score then team1_name g
      else if js_lt team1Score team2Score then team2_name g
      else Some ''Draw'')"

text \<open>
  The inner loop over the pending bets that were selected for the game: the status
  statement, then for a winning bet the credit statement. The result is the store as
  the loop leaves it, and \<open>None\<close> when a statement threw, otherwise the remaining
  faults and the counter \<open>resolved\<close>.
\<close>

fun resolve_bets :: "faults \<Rightarrow> string option \<Rightarrow> bet list \<Rightarrow> db \<Rightarrow> nat \<Rightarrow> db \<times> (faults \<times> nat) option" where
  "resolve_bets f w [] d resolved = (d, Some (f, resolved))"
| "resolve_bets f w (b # rest) d resolved =
     (case tick f of
        None \<Rightarrow> (d, None)
      | Some f1 \<Rightarrow>
          (let won = (Some (selected_team b) = w);
               d1 = d\<lparr>bets := set_status (if won then Won else Lost) (bid b) (bets d)\<rparr>
           in if won
              then (case tick f1 of
                      None \<Rightarrow> (d1, None)
                    | Some f2 \<Rightarrow>
                        resolve_bets f2 w rest
                          (d1\<lparr>users := credit (js_mul (bet_amount b) (b_odds b)) (user_id b) (users d1)\<rparr>)
                          (resolved + 1))
              else resolve_bets f1 w rest d1 (resolved + 1)))"

text \<open>The outer loop over the completed events.\<close>

fun resolve_events :: "faults \<Rightarrow> score_event list \<Rightarrow> db \<Rightarrow> nat \<Rightarrow> db \<times> (faults \<times> nat) option" where
  "resolve_events f [] d resolved = (d, Some (f, resolved))"
| "resolve_events f (ev # evs) d resolved =
     (case tick f of
        None \<Rightarrow> (d, None)
      | Some f1 \<Rightarrow>
          (case find (\<lambda>g. external_id g = Some (''odds_'' @ se_id ev)) (games d) of
             None \<Rightarrow> resolve_events f1 evs d resolved
           | Some g \<Rightarrow>
               (case (find (\<lambda>s. Some (sc_name s) = team1_name g) (scores ev),
                      find (\<lambda>s. Some (sc_name s) = team2_name g) (scores ev)) of
                  (Some s1, Some s2) \<Rightarrow>
                    if isNaN (sc_score s1) \<or> isNaN (sc_score s2)
                    then resolve_events f1 evs d resolved
                    else (case tick f1 of
                            None \<Rightarrow> (d, None)
                          | Some f2 \<Rightarrow>
                              (case resolve_bets f2 (winningTeam g (sc_score s1) (sc_score s2))
                                      (filter (\<lambda>b. status b = Pending \<and> b_game_name b = game_name g) (bets d))
                                      d resolved of
                                 (d', None) \<Rightarrow> (d', None)
                               | (d', Some (f3, resolved')) \<Rightarrow> resolve_events f3 evs d' resolved'))
                | _ \<Rightarrow> resolve_events f1 evs d resolved)))"

text \<open>
  The route. \<open>api_key\<close> says whether \<^verbatim>\<open>ODDS_API_KEY\<close> is set, and \<open>feed\<close> is what the
  request to the scores feed gave: \<open>None\<close> when it threw (as a module in which the name
  \<^verbatim>\<open>axios\<close> is unbound, as it is in admin.js, makes it do), the events otherwise. The
  answer of a successful pass carries \<open>resolved\<close> and the number of completed events.
\<close>

definition auto_resolve :: "faults \<Rightarrow> bool \<Rightarrow> score_event list option \<Rightarrow> db \<Rightarrow> (nat \<times> nat) response \<times> db" where
  "auto_resolve f api_key feed d =
     (if \<not> api_key then (Status500, d)
      else (case feed of
              None \<Rightarrow> (Status500, d)
            | Some events \<Rightarrow>
                (case resolve_events f (filter completed events) d 0 of
                   (d', None) \<Rightarrow> (Status500, d')
                 | (d', Some (_, resolved)) \<Rightarrow>
                     (Success (resolved, length (filter completed events)), d'))))"

section \<open>POST /api/bet/place\<close>

text \<open>
  The body of a placement. \<open>pl_betAmount\<close> is the field under \<^verbatim>\<open>Number(...)\<close>;
  \<open>pl_selectedTeam\<close> is a string, empty when the body has none (\<^verbatim>\<open>!selectedTeam\<close>).
\<close>

record place_req =
  pl_userId :: "int option"
  pl_gameId :: "int option"
  pl_betAmount :: "jsnum option"
  pl_selectedTeam :: string

text \<open>Step 2 of the route: the odds of the chosen side, \<^verbatim>\<open>null\<close> when there is none.\<close>

definition chosenOdds :: "game \<Rightarrow> string \<Rightarrow> jsnum option" where
  "chosenOdds g selectedTeam =
     (if Some selectedTeam = team1_name g then Some (to_number (team1_odds g))
      else if Some selectedTeam = team2_name g then Some (to_number (team2_odds g))
      else if selectedTeam = ''Draw''
           then (if has_draw g \<and> draw_odds g \<noteq> None then Some (to_number (draw_odds g)) else None)
           else None)"

definition new_bet :: "db \<Rightarrow> int \<Rightarrow> game \<Rightarrow> jsnum \<Rightarrow> jsnum \<Rightarrow> string \<Rightarrow> bet" where
  "new_bet d userId g amount chosen selectedTeam =
     \<lparr>bid = next_bet_id d, user_id = userId, b_game_name = game_name g, b_game_type = game_type g,
      bet_amount = amount, b_odds = chosen, status = Pending, selected_team = selectedTeam\<rparr>"

definition place :: "faults \<Rightarrow> place_req \<Rightarrow> db \<Rightarrow> bet response \<times> db" where
  "place f req d =
     (let amount = number_of_field (pl_betAmount req)
      in if missing_id (pl_userId req) \<or> missing_id (pl_gameId req) \<or> pl_selectedTeam req = ''''
            \<or> isNaN amount \<or> js_le amount (Fin 0)
         then (Status400 ''Invalid userId, gameId, selectedTeam or betAmount'', d)
         else (case tick f of
                 None \<Rightarrow> (Status500, d)
               | Some f1 \<Rightarrow>
                   (case find (\<lambda>g. gid g = the (pl_gameId req)) (games d) of
                      None \<Rightarrow> (Status400 ''Game not found'', d)
                    | Some g \<Rightarrow>
                        (let chosen = chosenOdds g (pl_selectedTeam req)
                         in if \<not> truthy_opt chosen \<or> isNaN (the chosen)
                            then (Status400 ''Invalid selected team / odds not available'', d)
                            else (case tick f1 of
                                    None \<Rightarrow> (Status500, d)
                                  | Some f2 \<Rightarrow>
                                      (case find (\<lambda>u. uid u = the (pl_userId req)) (users d) of
                                         None \<Rightarrow> (Status400 ''User not found'', d)
                                       | Some u \<Rightarrow>
                                           if js_lt (to_number (coins u)) amount
                                           then (Status400 ''Insufficient balance'', d)
                                           else (case tick f2 of
                                                   None \<Rightarrow> (Status500, d)
                                                 | Some f3 \<Rightarrow>
                                                     (let d1 = d\<lparr>users := debit amount (the (pl_userId req)) (users d)\<rparr>
                                                      in case tick f3 of
                                                           None \<Rightarrow> (Status500, d1)
                                                         | Some _ \<Rightarrow>
                                                             (let b = new_bet d1 (the (pl_userId req)) g amount
                                                                        (the chosen) (pl_selectedTeam req)
                                                              in (Success b,
                                                                  d1\<lparr>bets := bets d1 @ [b],
                                                                     next_bet_id := next_bet_id d1 + 1\<rparr>))))))))))"

section \<open>syncEflCupOddsToDB\<close>

text \<open>An event of the odds feed, with the fields the function reads.\<close>

record outcome =
  out_name :: string
  price :: jsnum

record market =
  m_key :: string
  outcomes :: "outcome list"

record bookmaker =
  markets :: "market list"

record odds_event =
  ev_id :: string
  home_team :: string
  away_team :: string
  commence_time :: "string option"
  bookmakers :: "bookmaker list"

record best =
  bestHome :: "jsnum option"
  bestDraw :: "jsnum option"
  bestAway :: "jsnum option"

text \<open>\<^verbatim>\<open>best == null ? out.price : Math.max(best, out.price)\<close>\<close>

definition better :: "jsnum option \<Rightarrow> jsnum \<Rightarrow> jsnum option" where
  "better b p = (case b of None \<Rightarrow> Some p | Some x \<Rightarrow> Some (js_max x p))"

fun scan_outcomes :: "string \<Rightarrow> string \<Rightarrow> outcome list \<Rightarrow> best \<Rightarrow> best" where
  "scan_outcomes home away [] b = b"
| "scan_outcomes home away (out # outs) b =
     scan_outcomes home away outs
       (if out_name out = home then b\<lparr>bestHome := better (bestHome b) (price out)\<rparr>
        else if out_name out = away then b\<lparr>bestAway := better (bestAway b) (price out)\<rparr>
        else if toLowerCase (out_name out) = ''draw''
             then b\<lparr>bestDraw := better (bestDraw b) (price out)\<rparr>
             else b)"

fun scan_bookmakers :: "string \<Rightarrow> string \<Rightarrow> bookmaker list \<Rightarrow> best \<Rightarrow> best" where
  "scan_bookmakers home away [] b = b"
| "scan_bookmakers home away (bm # bms) b =
     (case find (\<lambda>m. m_key m = ''h2h'') (markets bm) of
        None \<Rightarrow> scan_bookmakers home away bms b
      | Some h2h \<Rightarrow> scan_bookmakers home away bms (scan_outcomes home away (outcomes h2h) b))"

definition best_prices :: "odds_event \<Rightarrow> best" where
  "best_prices ev =
     scan_bookmakers (home_team ev) (away_team ev) (bookmakers ev)
       \<lparr>bestHome = None, bestDraw = None, bestAway = None\<rparr>"

definition externalId :: "odds_event \<Rightarrow> string" where
  "externalId ev = ''odds_'' @ ev_id ev"

text \<open>
  \<^verbatim>\<open>INSERT INTO games ... ON CONFLICT (external_id) DO UPDATE SET ...\<close>: a row with the
  event's external id takes the new values and keeps its id; without one, a row is
  appended under the next id.
\<close>

definition excluded :: "odds_event \<Rightarrow> best \<Rightarrow> game \<Rightarrow> game" where
  "excluded ev b g =
     g\<lparr>game_name := home_team ev @ '' vs '' @ away_team ev @ '' (EFL Cup)'',
       game_type := ''soccer'',
       odds := the (bestHome b),
       start_time := (case commence_time ev of None \<Rightarrow> None | Some s \<Rightarrow> if s = '''' then None else Some s),
       team1_name := Some (home_team ev),
       team2_name := Some (away_team ev),
       team1_odds := bestHome b,
       team2_odds := bestAway b,
       draw_odds := bestDraw b,
       has_draw := truthy_opt (bestDraw b)\<rparr>"

definition blank_game :: "int \<Rightarrow> string \<Rightarrow> game" where
  "blank_game i ext =
     \<lparr>gid = i, external_id = Some ext, game_name = '''', game_type = '''', odds = Fin 0,
      start_time = None, team1_name = None, team2_name = None, team1_odds = None,
      team2_odds = None, draw_odds = None, has_draw = False\<rparr>"

definition upsert :: "odds_event \<Rightarrow> best \<Rightarrow> db \<Rightarrow> db" where
  "upsert ev b d =
     (if list_ex (\<lambda>g. external_id g = Some (externalId ev)) (games d)
      then d\<lparr>games := map (\<lambda>g. if external_id g = Some (externalId ev) then excluded ev b g else g) (games d)\<rparr>
      else d\<lparr>games := games d @ [excluded ev b (blank_game (next_game_id d) (externalId ev))],
             next_game_id := next_game_id d + 1\<rparr>)"

text \<open>
  The loop over the events of the snapshot, with the counters \<open>upserted\<close> and
  \<open>skippedNoOdds\<close> and the list \<open>activeExternalIds\<close>.
\<close>

fun sync_events :: "faults \<Rightarrow> odds_event list \<Rightarrow> db \<Rightarrow> nat \<Rightarrow> nat \<Rightarrow> string list
    \<Rightarrow> db \<times> (faults \<times> nat \<times> nat \<times> string list) option" where
  "sync_events f [] d upserted skippedNoOdds active = (d, Some (f, upserted, skippedNoOdds, active))"
| "sync_events f (ev # evs) d upserted skippedNoOdds active =
     (let b = best_prices ev
      in if \<not> truthy_opt (bestHome b) \<or> \<not> truthy_opt (bestAway b)
         then sync_events f evs d upserted (skippedNoOdds + 1) active
         else (case tick f of
                 None \<Rightarrow> (d, None)
               | Some f1 \<Rightarrow>
                   sync_events f1 evs (upsert ev b d) (upserted + 1) skippedNoOdds
                     (active @ [externalId ev])))"



record sync_stats =
  fetched :: nat
  upserted :: nat
  skippedNoOdds :: nat
  activeNow :: nat



section \<open>One pass of the settlement loop, both statements applied\<close>

text \<open>
  What one pass of the inner loop of auto-resolve writes when neither of its statements
  throws: the status, and for a winning wager the credit.
\<close>

definition settled :: "string option \<Rightarrow> db \<Rightarrow> bet \<Rightarrow> db" where
  "settled w d b =
     (if Some (selected_team b) = w
      then d\<lparr>bets := set_status Won (bid b) (bets d),
             users := credit (js_mul (bet_amount b) (b_odds b)) (user_id b) (users d)\<rparr>
      else d\<lparr>bets := set_status Lost (bid b) (bets d)\<rparr>)"

text \<open>The status the loop gives a wager, by the winning label.\<close>

definition outcome_status :: "string option \<Rightarrow> bet \<Rightarrow> bet_status" where
  "outcome_status w b = (if Some (selected_team b) = w then Won else Lost)"

section \<open>The quotes of an event, by outcome\<close>

text \<open>
  The quotes the reconciler reads: of every bookmaker the outcomes of its first market
  with key h2h, in order. An outcome counts for the home side when its name is the home
  team's, otherwise for the away side when its name is the away team's, otherwise for the
  draw when its name is \<^verbatim>\<open>draw\<close> in any case of letters.
\<close>

definition h2h_outcomes :: "odds_event \<Rightarrow> outcome list" where
  "h2h_outcomes ev =
     concat (map (\<lambda>bm. case find (\<lambda>m. m_key m = ''h2h'') (markets bm) of None \<Rightarrow> [] | Some m \<Rightarrow> outcomes m)
               (bookmakers ev))"

definition home_quotes :: "odds_event \<Rightarrow> jsnum list" where
  "home_quotes ev = map price (filter (\<lambda>out. out_name out = home_team ev) (h2h_outcomes ev))"

definition away_quotes :: "odds_event \<Rightarrow> jsnum list" where
  "away_quotes ev =
     map price (filter (\<lambda>out. out_name out \<noteq> home_team ev \<and> out_name out = away_team ev) (h2h_outcomes ev))"

definition draw_quotes :: "odds_event \<Rightarrow> jsnum list" where
  "draw_quotes ev =
     map price (filter (\<lambda>out. out_name out \<noteq> home_team ev \<and> out_name out \<noteq> away_team ev
                               \<and> toLowerCase (out_name out) = ''draw'') (h2h_outcomes ev))"

text \<open>
  \<open>best_of qs r\<close>: \<open>r\<close> is the best price of the quotes \<open>qs\<close>. Without a quote there is
  none. With quotes that are all numbers it is one of them and none is higher. A quote
  that is NaN makes it NaN (as \<^verbatim>\<open>Math.max\<close> does).
\<close>

definition best_of :: "jsnum list \<Rightarrow> jsnum option \<Rightarrow> bool" where
  "best_of qs r =
     (case r of
        None \<Rightarrow> qs = []
      | Some m \<Rightarrow> qs \<noteq> [] \<and> (if NaN \<in> set qs then m = NaN
                              else m \<in> set qs \<and> (\<forall>q \<in> set qs. js_le q m)))"

text \<open>An event is priced when both sides have a best price that is not zero and not NaN.\<close>

definition priced :: "odds_event \<Rightarrow> bool" where
  "priced ev = (truthy_opt (bestHome (best_prices ev)) \<and> truthy_opt (bestAway (best_prices ev)))"


section \<open>Sequences of placements and settlements\<close>










section \<open>A market, a wager and an account\<close>

text \<open>
  The market ``Red vs Blue'' at odds 2 and 1.8, a wager of 40 coins on Red by account 1,
  a store with that one account, and the final score Red 3, Blue 1.
\<close>

definition red_blue :: game where
  "red_blue =
     \<lparr>gid = 1, external_id = Some ''odds_1'', game_name = ''Red vs Blue (EFL Cup)'',
      game_type = ''soccer'', odds = Fin 2, start_time = None, team1_name = Some ''Red'',
      team2_name = Some ''Blue'', team1_odds = Some (Fin 2), team2_odds = Some (Fin (9 / 5)),
      draw_odds = None, has_draw = False\<rparr>"

definition wager40 :: "bet_status \<Rightarrow> bet" where
  "wager40 s =
     \<lparr>bid = 1, user_id = 1, b_game_name = ''Red vs Blue (EFL Cup)'', b_game_type = ''soccer'',
      bet_amount = Fin 40, b_odds = Fin 2, status = s, selected_team = ''Red''\<rparr>"

definition store :: "rat \<Rightarrow> bet list \<Rightarrow> game list \<Rightarrow> db" where
  "store c bs gs =
     \<lparr>users = [\<lparr>uid = 1, coins = Some (Fin c)\<rparr>], bets = bs, games = gs,
      next_bet_id = 1 + int (length bs), next_game_id = 1 + int (length gs)\<rparr>"

definition red_wins :: score_event where
  "red_wins =
     \<lparr>se_id = ''1'', completed = True,
      scores = [\<lparr>sc_name = ''Red'', sc_score = Fin 3\<rparr>, \<lparr>sc_name = ''Blue'', sc_score = Fin 1\<rparr>]\<rparr>"

definition stake40_on_red :: place_req where
  "stake40_on_red =
     \<lparr>pl_userId = Some 1, pl_gameId = Some 1, pl_betAmount = Some (Fin 40), pl_selectedTeam = ''Red''\<rparr>"

text \<open>
  The event of the odds feed behind the market, quoted by two bookmakers, and an event
  that nobody quotes.
\<close>

definition red_blue_event :: odds_event where
  "red_blue_event =
     \<lparr>ev_id = ''1'', home_team = ''Red'', away_team = ''Blue'', commence_time = None,
      bookmakers =
        [\<lparr>markets = [\<lparr>m_key = ''h2h'',
                      outcomes = [\<lparr>out_name = ''Red'', price = Fin (19 / 10)\<rparr>,
                                  \<lparr>out_name = ''Blue'', price = Fin (9 / 5)\<rparr>]\<rparr>]\<rparr>,
         \<lparr>markets = [\<lparr>m_key = ''h2h'',
                      outcomes = [\<lparr>out_name = ''Red'', price = Fin 2\<rparr>,
                                  \<lparr>out_name = ''Blue'', price = Fin (17 / 10)\<rparr>]\<rparr>]\<rparr>]\<rparr>"

definition unpriced_event :: "string \<Rightarrow> odds_event" where
  "unpriced_event i =
     \<lparr>ev_id = i, home_team = ''Green'', away_team = ''Gold'', commence_time = None, bookmakers = []\<rparr>"


definition green_gold_event :: odds_event where
  "green_gold_event =
     \<lparr>ev_id = ''2'', home_team = ''Green'', away_team = ''Gold'', commence_time = None,
      bookmakers =
        [\<lparr>markets = [\<lparr>m_key = ''h2h'',
                      outcomes = [\<lparr>out_name = ''Green'', price = Fin 2\<rparr>,
                                  \<lparr>out_name = ''Gold'', price = Fin (9 / 5)\<rparr>]\<rparr>]\<rparr>]\<rparr>"


section \<open>Facts about the numbers and the statements\<close>

lemmas ex_defs = red_blue_def wager40_def store_def red_wins_def stake40_on_red_def

lemmas num_defs = number_of_field_def to_number_def coalesce0_def isNaN_def truthy_def
  truthy_opt_def js_le_def js_sub_def js_mul_def missing_id_def

lemmas upd_defs = credit_def debit_def set_status_def

lemmas sync_defs = best_prices_def better_def js_max_def externalId_def upsert_def excluded_def
  blank_game_def toLowerCase_def lower_char_def

lemma uid_credit: "map uid (credit a i us) = map uid us"
  by (simp add: credit_def)

lemma find_uid_Some: "i \<in> uid ` set us \<Longrightarrow> \<exists>u. find (\<lambda>u. uid u = i) us = Some u"
  by (cases "find (\<lambda>u. uid u = i) us") (auto simp: find_None_iff)

section \<open>The scenarios of the specification\<close>



section \<open>POST /admin/add-coins: no lower bound\<close>

text \<open>
  C10. For a user that exists and an amount that is a number, add-coins answers with
  the row and sets the balance to its previous value (NULL as 0) plus the amount,
  whatever the sign of the amount and whether or not it is whole; nothing else changes.
  There is no lower bound: some existing user and some negative amount end in a
  negative balance.
\<close>

theorem add_coins_no_lower_bound:
  "(\<forall>f (req :: add_coins_req) (d :: db) i.
      ac_userId req = Some i \<and> i \<noteq> 0
      \<and> number_of_field (case ac_amount req of Some a \<Rightarrow> Some a | None \<Rightarrow> ac_coins req) \<noteq> NaN
      \<and> tick f \<noteq> None \<and> i \<in> uid ` set (users d) \<longrightarrow>
      (\<exists>row. fst (add_coins f req d) = Success row)
      \<and> snd (add_coins f req d) =
          d\<lparr>users := map (\<lambda>u. if uid u = i
                 then u\<lparr>coins := Some (js_add (case coins u of None \<Rightarrow> Fin 0 | Some c \<Rightarrow> c)
                        (number_of_field (case ac_amount req of Some a \<Rightarrow> Some a | None \<Rightarrow> ac_coins req)))\<rparr>
                 else u) (users d)\<rparr>)
   \<and> (\<exists>(req :: add_coins_req) (d :: db) a c.
        ac_amount req = Some (Fin a) \<and> a < 0
        \<and> the (ac_userId req) \<in> uid ` set (users d)
        \<and> \<lparr>uid = the (ac_userId req), coins = Some (Fin c)\<rparr> \<in> set (users (snd (add_coins None req d)))
        \<and> c < 0)"
proof (intro conjI allI impI)
  fix f and req :: add_coins_req and d :: db and i
  assume a: "ac_userId req = Some i \<and> i \<noteq> 0
      \<and> number_of_field (case ac_amount req of Some a \<Rightarrow> Some a | None \<Rightarrow> ac_coins req) \<noteq> NaN
      \<and> tick f \<noteq> None \<and> i \<in> uid ` set (users d)"
  have "i \<in> uid ` set (credit inc i (users d))" for inc
    using a uid_credit [of inc i "users d"] by (metis list.set_map)
  then have ne: "\<exists>u. find (\<lambda>u. uid u = i) (credit inc i (users d)) = Some u" for inc
    by (rule find_uid_Some)
  show "\<exists>row. fst (add_coins f req d) = Success row"
    using a ne by (auto simp: add_coins_def missing_id_def isNaN_def Let_def split: option.splits)
  show "snd (add_coins f req d) =
          d\<lparr>users := map (\<lambda>u. if uid u = i
                 then u\<lparr>coins := Some (js_add (case coins u of None \<Rightarrow> Fin 0 | Some c \<Rightarrow> c)
                        (number_of_field (case ac_amount req of Some a \<Rightarrow> Some a | None \<Rightarrow> ac_coins req)))\<rparr>
                 else u) (users d)\<rparr>"
    using a
    by (auto simp: add_coins_def missing_id_def isNaN_def Let_def credit_def coalesce0_def
        split: option.splits)
next
  show "\<exists>(req :: add_coins_req) (d :: db) a c.
        ac_amount req = Some (Fin a) \<and> a < 0
        \<and> the (ac_userId req) \<in> uid ` set (users d)
        \<and> \<lparr>uid = the (ac_userId req), coins = Some (Fin c)\<rparr> \<in> set (users (snd (add_coins None req d)))
        \<and> c < 0"
    apply (rule exI[of _ "\<lparr>ac_userId = Some 1, ac_amount = Some (Fin (- 15 / 2)), ac_coins = None\<rparr>"])
    apply (rule exI[of _ "store 5 [] []"])
    apply (rule exI[of _ "- 15 / 2"])
    apply (rule exI[of _ "- 5 / 2"])
    apply (simp add: add_coins_def store_def num_defs credit_def)
    done
qed

theorem add_coins_no_lower_bound_witness:
  "ac_userId \<lparr>ac_userId = Some 1, ac_amount = Some (Fin (- 15 / 2)), ac_coins = None\<rparr> = Some 1
   \<and> (1 :: int) \<in> uid ` set (users (store 5 [] []))
   \<and> add_coins None \<lparr>ac_userId = Some 1, ac_amount = Some (Fin (- 15 / 2)), ac_coins = None\<rparr> (store 5 [] [])
       = (Success \<lparr>uid = 1, coins = Some (Fin (- 5 / 2))\<rparr>, store (- 5 / 2) [] [])"
proof -
  let ?req = "\<lparr>ac_userId = Some 1, ac_amount = Some (Fin (- 15 / 2)), ac_coins = None\<rparr>"
  have h: "ac_userId ?req = Some 1 \<and> (1::int) \<noteq> 0
      \<and> number_of_field (case ac_amount ?req of Some a \<Rightarrow> Some a | None \<Rightarrow> ac_coins ?req) \<noteq> NaN
      \<and> tick None \<noteq> None \<and> 1 \<in> uid ` set (users (store 5 [] []))"
    by (simp add: number_of_field_def store_def)
  from add_coins_no_lower_bound h have
    "snd (add_coins None ?req (store 5 [] [])) =
          (store 5 [] [])\<lparr>users := map (\<lambda>u. if uid u = 1
                 then u\<lparr>coins := Some (js_add (case coins u of None \<Rightarrow> Fin 0 | Some c \<Rightarrow> c)
                        (number_of_field (case ac_amount ?req of Some a \<Rightarrow> Some a | None \<Rightarrow> ac_coins ?req)))\<rparr>
                 else u) (users (store 5 [] []))\<rparr>"
    by blast
  then have "snd (add_coins None ?req (store 5 [] [])) = store (- 5 / 2) [] []"
    by (simp add: store_def number_of_field_def)
  moreover have "fst (add_coins None ?req (store 5 [] [])) = Success \<lparr>uid = 1, coins = Some (Fin (- 5 / 2))\<rparr>"
    by (simp add: add_coins_def store_def num_defs credit_def)
  ultimately show ?thesis
    using h by (simp add: prod_eq_iff)
qed

section \<open>POST /admin/resolve-bet on a settled wager\<close>

text \<open>
  C1. A wager that is already won or lost should be left alone by every settlement
  operation, and its account not credited again. The batch settlement selects pending
  wagers only; resolve-bet does not look at the status. Resolving the won wager of the
  scenario as won a second time credits 80 coins a second time (140 becomes 220), and
  resolving it as lost turns the won wager into a lost one and keeps the credit.
\<close>

theorem resolve_bet_recredits_won_wager:
  "resolve_bet None \<lparr>rb_betId = Some 1, rb_result = ''won''\<rparr> (store 140 [wager40 Won] [red_blue])
     = (Success (Some (wager40 Won)), store 220 [wager40 Won] [red_blue])
   \<and> resolve_bet None \<lparr>rb_betId = Some 1, rb_result = ''lost''\<rparr> (store 140 [wager40 Won] [red_blue])
     = (Success (Some (wager40 Lost)), store 140 [wager40 Lost] [red_blue])"
  by (simp add: resolve_bet_def ex_defs num_defs upd_defs Let_def)

section \<open>Settlement: the status and the credit are two statements\<close>

text \<open>When the request to the scores feed throws, the route answers 500 and nothing is written.\<close>

lemma auto_resolve_fetch_throws: "auto_resolve f k None d = (Status500, d)"
  by (simp add: auto_resolve_def)

lemma resolve_bets_completed:
  "resolve_bets f w bs d n = (d', Some r) \<Longrightarrow> d' = foldl (settled w) d bs"
proof (induction bs arbitrary: f d n)
  case Nil
  then show ?case by simp
next
  case (Cons b bs)
  then show ?case
    by (auto simp: settled_def Let_def split: option.splits if_splits)
qed

text \<open>
  C2, as the claim states it, fails. The status and the credit are two statements of
  the store with nothing around them: when the credit statement of auto-resolve throws,
  the wager is won and its account is not credited; when the status statement of
  resolve-bet throws, the account is credited and the wager is still pending.
\<close>

theorem auto_resolve_fault_between_status_and_credit:
  "auto_resolve (Some 3) True (Some [red_wins]) (store 60 [wager40 Pending] [red_blue])
     = (Status500, store 60 [wager40 Won] [red_blue])
   \<and> resolve_bet (Some 2) \<lparr>rb_betId = Some 1, rb_result = ''won''\<rparr> (store 60 [wager40 Pending] [red_blue])
     = (Status500, store 140 [wager40 Pending] [red_blue])"
  by (simp add: auto_resolve_def resolve_bet_def ex_defs num_defs upd_defs winningTeam_def Let_def
      eval_nat_numeral)

text \<open>
  C2, amended. A settlement that completes without a failure of the store has applied
  both statements for every wager it settled as won: the inner loop of auto-resolve
  leaves the store that one pass per wager, status and credit together, gives, and a
  resolve-bet with result won that answers with success has credited the wager's
  account with stake times odds and set the status to won.
\<close>

theorem settlement_completed_applies_both:
  "(\<forall>r. snd (resolve_bets f w bs d n) = Some r \<longrightarrow> fst (resolve_bets f w bs d n) = foldl (settled w) d bs)
   \<and> (\<forall>r. fst (resolve_bet f \<lparr>rb_betId = Some i, rb_result = ''won''\<rparr> d) = Success r \<longrightarrow>
        (\<exists>b. find (\<lambda>b. bid b = i) (bets d) = Some b
           \<and> snd (resolve_bet f \<lparr>rb_betId = Some i, rb_result = ''won''\<rparr> d) =
               d\<lparr>users := credit (js_mul (bet_amount b) (b_odds b)) (user_id b) (users d),
                 bets := set_status Won i (bets d)\<rparr>))"
proof (intro conjI allI impI, goal_cases)
  case (1 r)
  then have "resolve_bets f w bs d n = (fst (resolve_bets f w bs d n), Some r)"
    by (simp add: prod_eq_iff)
  then show ?case
    by (rule resolve_bets_completed)
next
  case (2 r)
  then show ?case
    by (auto simp: resolve_bet_def Let_def split: option.splits if_splits)
qed

theorem settlement_completed_applies_both_witness:
  "snd (resolve_bets None (Some ''Red'') [wager40 Pending] (store 60 [wager40 Pending] [red_blue]) 0)
     = Some (None, 1)
   \<and> fst (resolve_bets None (Some ''Red'') [wager40 Pending] (store 60 [wager40 Pending] [red_blue]) 0)
     = store 140 [wager40 Won] [red_blue]
   \<and> fst (resolve_bet None \<lparr>rb_betId = Some 1, rb_result = ''won''\<rparr> (store 60 [wager40 Pending] [red_blue]))
     = Success (Some (wager40 Won))
   \<and> snd (resolve_bet None \<lparr>rb_betId = Some 1, rb_result = ''won''\<rparr> (store 60 [wager40 Pending] [red_blue]))
     = store 140 [wager40 Won] [red_blue]"
proof -
  let ?d = "store 60 [wager40 Pending] [red_blue]"
  have h1: "snd (resolve_bets None (Some ''Red'') [wager40 Pending] ?d 0) = Some (None, 1)"
    by (simp add: ex_defs num_defs upd_defs Let_def)
  have h2: "fst (resolve_bet None \<lparr>rb_betId = Some 1, rb_result = ''won''\<rparr> ?d) = Success (Some (wager40 Won))"
    by (simp add: resolve_bet_def ex_defs num_defs upd_defs Let_def)
  note t = settlement_completed_applies_both
    [where f = None and w = "Some ''Red''" and bs = "[wager40 Pending]" and d = ?d and n = 0 and i = 1]
  from t h1 have "fst (resolve_bets None (Some ''Red'') [wager40 Pending] ?d 0)
      = foldl (settled (Some ''Red'')) ?d [wager40 Pending]"
    by blast
  then have c1: "fst (resolve_bets None (Some ''Red'') [wager40 Pending] ?d 0) = store 140 [wager40 Won] [red_blue]"
    by (simp add: settled_def ex_defs num_defs upd_defs)
  from t h2 obtain b where "find (\<lambda>b. bid b = 1) (bets ?d) = Some b"
    and "snd (resolve_bet None \<lparr>rb_betId = Some 1, rb_result = ''won''\<rparr> ?d) =
      ?d\<lparr>users := credit (js_mul (bet_amount b) (b_odds b)) (user_id b) (users ?d),
         bets := set_status Won 1 (bets ?d)\<rparr>"
    by blast
  then have c2: "snd (resolve_bet None \<lparr>rb_betId = Some 1, rb_result = ''won''\<rparr> ?d) = store 140 [wager40 Won] [red_blue]"
    by (auto simp: ex_defs num_defs upd_defs)
  from h1 c1 h2 c2 show ?thesis by simp
qed

section \<open>POST /api/bet/place\<close>

text \<open>
  C4, as the claim states it, fails in its second half. The debit and the insert are two
  statements: when the insert throws, the account has been debited and there is no
  wager.
\<close>

theorem place_fault_between_debit_and_insert:
  "place (Some 3) stake40_on_red (store 100 [] [red_blue]) = (Status500, store 60 [] [red_blue])"
  by (simp add: place_def ex_defs num_defs upd_defs chosenOdds_def new_bet_def Let_def eval_nat_numeral)

text \<open>
  C4, amended. A placement that is rejected (status 400) leaves the store exactly as it
  was. A placement that succeeds has debited the stake from the account (NULL as 0) and
  appended one pending wager that carries the market's name and type, the stake, the
  odds of the chosen side as they were read, and the chosen side. With a store that
  never fails, a placement is either rejected or succeeds.
\<close>

theorem place_rejects_unchanged_or_debits_and_inserts:
  "(\<forall>m. fst (place f req d) = Status400 m \<longrightarrow> snd (place f req d) = d)
   \<and> (\<forall>b. fst (place f req d) = Success b \<longrightarrow>
        (\<exists>g amount chosen.
           find (\<lambda>g. gid g = the (pl_gameId req)) (games d) = Some g
           \<and> pl_betAmount req = Some amount
           \<and> chosenOdds g (pl_selectedTeam req) = Some chosen
           \<and> b = \<lparr>bid = next_bet_id d, user_id = the (pl_userId req), b_game_name = game_name g,
                  b_game_type = game_type g, bet_amount = amount, b_odds = chosen,
                  status = Pending, selected_team = pl_selectedTeam req\<rparr>
           \<and> snd (place f req d) =
               d\<lparr>users := map (\<lambda>u. if uid u = the (pl_userId req)
                               then u\<lparr>coins := Some (js_sub (case coins u of None \<Rightarrow> Fin 0 | Some c \<Rightarrow> c) amount)\<rparr>
                               else u) (users d),
                 bets := bets d @ [b],
                 next_bet_id := next_bet_id d + 1\<rparr>))
   \<and> (f = None \<longrightarrow> fst (place f req d) \<noteq> Status500)"
  by (auto simp: place_def Let_def new_bet_def debit_def coalesce0_def number_of_field_def isNaN_def
      truthy_opt_def split: option.splits if_splits)

theorem place_rejects_unchanged_or_debits_and_inserts_witness:
  "fst (place None (stake40_on_red\<lparr>pl_betAmount := Some (Fin 150)\<rparr>) (store 100 [] [red_blue]))
     = Status400 ''Insufficient balance''
   \<and> snd (place None (stake40_on_red\<lparr>pl_betAmount := Some (Fin 150)\<rparr>) (store 100 [] [red_blue]))
     = store 100 [] [red_blue]
   \<and> fst (place None stake40_on_red (store 100 [] [red_blue])) = Success (wager40 Pending)
   \<and> snd (place None stake40_on_red (store 100 [] [red_blue])) = store 60 [wager40 Pending] [red_blue]"
proof -
  let ?d = "store 100 [] [red_blue]"
  let ?big = "stake40_on_red\<lparr>pl_betAmount := Some (Fin 150)\<rparr>"
  have h1: "fst (place None ?big ?d) = Status400 ''Insufficient balance''"
    by (simp add: place_def ex_defs num_defs upd_defs chosenOdds_def new_bet_def Let_def)
  have h2: "fst (place None stake40_on_red ?d) = Success (wager40 Pending)"
    by (simp add: place_def ex_defs num_defs upd_defs chosenOdds_def new_bet_def Let_def)
  from place_rejects_unchanged_or_debits_and_inserts [of None ?big ?d] h1
  have c1: "snd (place None ?big ?d) = ?d"
    by blast
  from place_rejects_unchanged_or_debits_and_inserts [of None stake40_on_red ?d] h2
  obtain g amount chosen where
    "find (\<lambda>g. gid g = the (pl_gameId stake40_on_red)) (games ?d) = Some g"
    "pl_betAmount stake40_on_red = Some amount"
    "chosenOdds g (pl_selectedTeam stake40_on_red) = Some chosen"
    "snd (place None stake40_on_red ?d) =
       ?d\<lparr>users := map (\<lambda>u. if uid u = the (pl_userId stake40_on_red)
                       then u\<lparr>coins := Some (js_sub (case coins u of None \<Rightarrow> Fin 0 | Some c \<Rightarrow> c) amount)\<rparr>
                       else u) (users ?d),
          bets := bets ?d @ [wager40 Pending],
          next_bet_id := next_bet_id ?d + 1\<rparr>"
    by blast
  then have c2: "snd (place None stake40_on_red ?d) = store 60 [wager40 Pending] [red_blue]"
    by (auto simp: ex_defs num_defs)
  from h1 c1 h2 c2 show ?thesis by simp
qed




section \<open>Batch settlement of one completed event\<close>

text \<open>
  With a store that never fails, the inner loop is a fold of single passes; over the
  pending wagers of a store with distinct wager ids the fold rewrites exactly the
  selected rows, and it credits each account with the winnings of its own winning
  wagers, in order.
\<close>

lemma find_append_last:
  "find P (xs @ [y]) = (case find P xs of None \<Rightarrow> (if P y then Some y else None) | Some x \<Rightarrow> Some x)"
  by (induction xs) auto

lemma find_in_set: "find P xs = Some y \<Longrightarrow> y \<in> set xs \<and> P y"
  by (induction xs) (auto split: if_splits)

lemma resolve_bets_no_fault:
  "resolve_bets None w bs d n = (foldl (settled w) d bs, Some (None, n + length bs))"
  by (induction bs arbitrary: d n) (auto simp: settled_def Let_def)

lemma bets_settled_fold:
  "bets (foldl (settled w) d bs) = foldl (\<lambda>B b. set_status (outcome_status w b) (bid b) B) (bets d) bs"
  by (induction bs arbitrary: d) (auto simp: settled_def outcome_status_def)



lemma set_status_fold_last:
  "foldl (\<lambda>B b. set_status (s b) (bid b) B) B bs =
     map (\<lambda>x. case find (\<lambda>b. bid b = bid x) (rev bs) of None \<Rightarrow> x | Some b \<Rightarrow> x\<lparr>status := s b\<rparr>) B"
proof (induction bs arbitrary: B)
  case Nil
  then show ?case by simp
next
  case (Cons b bs)
  show ?case
    by (simp add: Cons.IH find_append_last) (auto simp: set_status_def split: option.splits)
qed

lemma find_own_row:
  assumes "distinct (map bid B)" and "x \<in> set B"
  shows "find (\<lambda>b. bid b = bid x) (rev (filter P B)) = (if P x then Some x else None)"
proof (cases "find (\<lambda>b. bid b = bid x) (rev (filter P B))")
  case None
  then have "\<not> P x" using assms(2) by (auto simp: find_None_iff)
  with None show ?thesis by simp
next
  case (Some b)
  then have "b \<in> set B" "P b" "bid b = bid x"
    using find_in_set [OF Some] by auto
  with assms have "b = x"
    by (meson distinct_map inj_onD)
  with Some \<open>P b\<close> show ?thesis by simp
qed

lemma settle_bets_rows:
  assumes "distinct (map bid B)"
  shows "foldl (\<lambda>B b. set_status (s b) (bid b) B) B (filter P B) =
     map (\<lambda>x. if P x then x\<lparr>status := s x\<rparr> else x) B"
  unfolding set_status_fold_last
  by (rule map_cong) (simp_all add: find_own_row [OF assms])


text \<open>
  The batch settlement passes over a wager that is already won or lost: in a store with
  distinct wager ids that never fails, such a row is still there, as it was, after the
  loop over any events.
\<close>

lemma resolve_events_keeps_settled:
  "distinct (map bid (bets d)) \<Longrightarrow> b \<in> set (bets d) \<Longrightarrow> status b \<noteq> Pending \<Longrightarrow>
     b \<in> set (bets (fst (resolve_events None evs d n)))"
proof (induction evs arbitrary: d n)
  case Nil
  then show ?case by simp
next
  case (Cons ev evs)
  have rows: "bets (foldl (settled w) d (filter (\<lambda>x. status x = Pending \<and> b_game_name x = nm) (bets d))) =
      map (\<lambda>x. if status x = Pending \<and> b_game_name x = nm then x\<lparr>status := outcome_status w x\<rparr> else x) (bets d)"
    for w nm
    unfolding bets_settled_fold by (rule settle_bets_rows [OF Cons.prems(1)])
  have ids: "(\<lambda>x. bid (if c x then x\<lparr>status := st x\<rparr> else x)) = bid" for c st
    by (rule ext) simp
  have keep: "b \<in> set (bets (foldl (settled w) d (filter (\<lambda>x. status x = Pending \<and> b_game_name x = nm) (bets d))))"
    for w nm
    unfolding rows using Cons.prems by (auto simp: image_iff intro!: bexI [of _ b])
  have dist: "distinct (map bid (bets (foldl (settled w) d (filter (\<lambda>x. status x = Pending \<and> b_game_name x = nm) (bets d)))))"
    for w nm
    unfolding rows using Cons.prems(1) by (simp add: comp_def ids)
  show ?case
    using Cons.prems keep dist
    by (auto simp: resolve_bets_no_fault Cons.IH split: option.splits)
qed



section \<open>Reconciliation: the best price of each outcome\<close>

lemma scan_outcomes_fold:
  "scan_outcomes h a outs b =
     \<lparr>bestHome = foldl better (bestHome b) (map price (filter (\<lambda>out. out_name out = h) outs)),
      bestDraw = foldl better (bestDraw b)
         (map price (filter (\<lambda>out. out_name out \<noteq> h \<and> out_name out \<noteq> a \<and> toLowerCase (out_name out) = ''draw'') outs)),
      bestAway = foldl better (bestAway b) (map price (filter (\<lambda>out. out_name out \<noteq> h \<and> out_name out = a) outs))\<rparr>"
  by (induction outs arbitrary: b) auto

lemma scan_bookmakers_fold:
  "scan_bookmakers h a bms b =
     (let outs = concat (map (\<lambda>bm. case find (\<lambda>m. m_key m = ''h2h'') (markets bm) of None \<Rightarrow> [] | Some m \<Rightarrow> outcomes m) bms)
      in \<lparr>bestHome = foldl better (bestHome b) (map price (filter (\<lambda>out. out_name out = h) outs)),
          bestDraw = foldl better (bestDraw b)
             (map price (filter (\<lambda>out. out_name out \<noteq> h \<and> out_name out \<noteq> a \<and> toLowerCase (out_name out) = ''draw'') outs)),
          bestAway = foldl better (bestAway b) (map price (filter (\<lambda>out. out_name out \<noteq> h \<and> out_name out = a) outs))\<rparr>)"
  by (induction bms arbitrary: b) (auto simp: Let_def scan_outcomes_fold split: option.splits)

lemma best_prices_fold:
  "best_prices ev =
     \<lparr>bestHome = foldl better None (home_quotes ev),
      bestDraw = foldl better None (draw_quotes ev),
      bestAway = foldl better None (away_quotes ev)\<rparr>"
  by (simp add: best_prices_def scan_bookmakers_fold Let_def home_quotes_def away_quotes_def
      draw_quotes_def h2h_outcomes_def)

lemma js_le_total: "a \<noteq> NaN \<Longrightarrow> b \<noteq> NaN \<Longrightarrow> js_lt a b \<or> js_le b a"
  by (cases a; cases b) (auto simp: js_le_def)

lemma js_le_refl: "a \<noteq> NaN \<Longrightarrow> js_le a a"
  by (simp add: js_le_def)

lemma foldl_better_Some: "foldl better (Some x) qs = Some (foldl js_max x qs)"
  by (induction qs arbitrary: x) (auto simp: better_def)

lemma foldl_js_max_NaN: "foldl js_max NaN qs = NaN"
  by (induction qs) (auto simp: js_max_def)

lemma foldl_js_max_has_NaN: "NaN \<in> set qs \<Longrightarrow> foldl js_max x qs = NaN"
  by (induction qs arbitrary: x) (auto simp: js_max_def foldl_js_max_NaN)

lemma foldl_js_max_is_max:
  "x \<noteq> NaN \<Longrightarrow> NaN \<notin> set qs \<Longrightarrow>
     foldl js_max x qs \<in> set (x # qs) \<and> (\<forall>q \<in> set (x # qs). js_le q (foldl js_max x qs))"
proof (induction qs arbitrary: x)
  case Nil
  then show ?case by (simp add: js_le_refl)
next
  case (Cons q qs)
  then have q: "q \<noteq> NaN" and qs: "NaN \<notin> set qs" by auto
  show ?case
  proof (cases "js_lt x q")
    case True
    then have m: "js_max x q = q" using Cons.prems q by (simp add: js_max_def)
    from Cons.IH [OF q qs] have ih: "foldl js_max q qs \<in> set (q # qs)"
      "\<forall>y \<in> set (q # qs). js_le y (foldl js_max q qs)" by auto
    from ih(2) have "js_le q (foldl js_max q qs)" by simp
    moreover have "js_le x q" using True by (simp add: js_le_def)
    ultimately have "js_le x (foldl js_max q qs)"
      by (cases x; cases q; cases "foldl js_max q qs") (auto simp: js_le_def)
    with ih show ?thesis by (auto simp: m)
  next
    case False
    then have m: "js_max x q = x" using Cons.prems q by (simp add: js_max_def)
    from False have qx: "js_le q x" using js_le_total [of x q] Cons.prems q by auto
    from Cons.IH [OF Cons.prems(1) qs] have ih: "foldl js_max x qs \<in> set (x # qs)"
      "\<forall>y \<in> set (x # qs). js_le y (foldl js_max x qs)" by auto
    from ih(2) have "js_le x (foldl js_max x qs)" by simp
    with qx have "js_le q (foldl js_max x qs)"
      by (cases x; cases q; cases "foldl js_max x qs") (auto simp: js_le_def)
    with ih show ?thesis by (auto simp: m)
  qed
qed

lemma best_of_foldl: "best_of qs (foldl better None qs)"
proof (cases qs)
  case Nil
  then show ?thesis by (simp add: best_of_def)
next
  case (Cons x xs)
  show ?thesis
  proof (cases "NaN \<in> set qs")
    case True
    then have "foldl js_max x xs = NaN"
      using Cons by (cases "x = NaN") (auto simp: foldl_js_max_NaN foldl_js_max_has_NaN)
    with True show ?thesis by (simp add: Cons best_of_def better_def foldl_better_Some)
  next
    case False
    then have "x \<noteq> NaN" "NaN \<notin> set xs" using Cons by auto
    from foldl_js_max_is_max [OF this] False show ?thesis
      by (simp add: Cons best_of_def better_def foldl_better_Some)
  qed
qed

lemma excluded_keeps [simp]:
  "external_id (excluded ev b g) = external_id g" "gid (excluded ev b g) = gid g"
  by (simp_all add: excluded_def)

lemma excluded_prices [simp]:
  "team1_odds (excluded ev b g) = bestHome b" "team2_odds (excluded ev b g) = bestAway b"
  "draw_odds (excluded ev b g) = bestDraw b"
  by (simp_all add: excluded_def)

lemma excluded_twice [simp]: "excluded ev b (excluded ev' b' g) = excluded ev b g"
  by (simp add: excluded_def)

lemma upsert_has_row: "\<exists>g \<in> set (games (upsert ev b d)). external_id g = Some (externalId ev)"
proof (cases "list_ex (\<lambda>g. external_id g = Some (externalId ev)) (games d)")
  case True
  then obtain g where "g \<in> set (games d)" "external_id g = Some (externalId ev)"
    by (auto simp: list_ex_iff)
  then have "excluded ev b g \<in> set (games (upsert ev b d))"
    using True by (auto simp: upsert_def)
  then show ?thesis
    using \<open>external_id g = Some (externalId ev)\<close> by (intro bexI [of _ "excluded ev b g"]) simp_all
next
  case False
  then show ?thesis by (simp add: upsert_def blank_game_def)
qed

lemma upsert_row_prices:
  "g \<in> set (games (upsert ev b d)) \<Longrightarrow> external_id g = Some (externalId ev) \<Longrightarrow>
     team1_odds g = bestHome b \<and> team2_odds g = bestAway b \<and> draw_odds g = bestDraw b"
  by (auto simp: upsert_def list_ex_iff split: if_splits)

text \<open>
  C8. For every event of the snapshot the best price computed for the home side, the
  away side and the draw is the best of that outcome's quotes over the bookmakers' h2h
  markets: absent when there is no quote, and otherwise (the quotes being numbers) one
  of the quotes with none of them higher. An event without a best price for the home or
  the away side is discarded: nothing is written and the skipped counter goes up by one.
  A priced event is upserted, and every row under its external id then records the three
  best prices.
\<close>

theorem best_price_per_outcome:
  "best_of (home_quotes ev) (bestHome (best_prices ev))
   \<and> best_of (away_quotes ev) (bestAway (best_prices ev))
   \<and> best_of (draw_quotes ev) (bestDraw (best_prices ev))
   \<and> (bestHome (best_prices ev) = None \<or> bestAway (best_prices ev) = None \<longrightarrow>
        sync_events f (ev # evs) d up sk act = sync_events f evs d up (sk + 1) act)
   \<and> (truthy_opt (bestHome (best_prices ev)) \<and> truthy_opt (bestAway (best_prices ev)) \<and> tick f = Some f1 \<longrightarrow>
        sync_events f (ev # evs) d up sk act =
          sync_events f1 evs (upsert ev (best_prices ev) d) (up + 1) sk (act @ [externalId ev])
        \<and> (\<exists>g \<in> set (games (upsert ev (best_prices ev) d)). external_id g = Some (externalId ev))
        \<and> (\<forall>g \<in> set (games (upsert ev (best_prices ev) d)).
              external_id g = Some (externalId ev) \<longrightarrow>
              team1_odds g = bestHome (best_prices ev) \<and> team2_odds g = bestAway (best_prices ev)
              \<and> draw_odds g = bestDraw (best_prices ev)))"
proof (intro conjI impI)
  show "best_of (home_quotes ev) (bestHome (best_prices ev))"
    by (simp add: best_prices_fold best_of_foldl)
  show "best_of (away_quotes ev) (bestAway (best_prices ev))"
    by (simp add: best_prices_fold best_of_foldl)
  show "best_of (draw_quotes ev) (bestDraw (best_prices ev))"
    by (simp add: best_prices_fold best_of_foldl)
next
  assume "bestHome (best_prices ev) = None \<or> bestAway (best_prices ev) = None"
  then show "sync_events f (ev # evs) d up sk act = sync_events f evs d up (sk + 1) act"
    by (auto simp: Let_def truthy_opt_def)
next
  assume a: "truthy_opt (bestHome (best_prices ev)) \<and> truthy_opt (bestAway (best_prices ev)) \<and> tick f = Some f1"
  then show "sync_events f (ev # evs) d up sk act =
          sync_events f1 evs (upsert ev (best_prices ev) d) (up + 1) sk (act @ [externalId ev])"
    by (simp add: Let_def)
  show "\<exists>g \<in> set (games (upsert ev (best_prices ev) d)). external_id g = Some (externalId ev)"
    by (rule upsert_has_row)
  show "\<forall>g \<in> set (games (upsert ev (best_prices ev) d)).
              external_id g = Some (externalId ev) \<longrightarrow>
              team1_odds g = bestHome (best_prices ev) \<and> team2_odds g = bestAway (best_prices ev)
              \<and> draw_odds g = bestDraw (best_prices ev)"
    using upsert_row_prices by blast
qed

theorem best_price_per_outcome_witness:
  "home_quotes red_blue_event = [Fin (19 / 10), Fin 2]
   \<and> away_quotes red_blue_event = [Fin (9 / 5), Fin (17 / 10)]
   \<and> draw_quotes red_blue_event = []
   \<and> best_prices red_blue_event = \<lparr>bestHome = Some (Fin 2), bestDraw = None, bestAway = Some (Fin (9 / 5))\<rparr>
   \<and> sync_events None [unpriced_event ''2'', red_blue_event] (store 100 [] []) 0 0 []
       = (store 100 [] [red_blue], Some (None, 1, 1, [''odds_1'']))"
proof -
  let ?d = "store 100 [] []"
  have q: "home_quotes red_blue_event = [Fin (19 / 10), Fin 2]"
    "away_quotes red_blue_event = [Fin (9 / 5), Fin (17 / 10)]"
    "draw_quotes red_blue_event = []"
    by (simp_all add: home_quotes_def away_quotes_def draw_quotes_def h2h_outcomes_def red_blue_event_def
        toLowerCase_def lower_char_def)
  note t1 = best_price_per_outcome [where ev = red_blue_event and f = None and evs = "[]" and d = ?d
      and up = 0 and sk = 1 and act = "[]" and ?f1.0 = None]
  note t2 = best_price_per_outcome [where ev = "unpriced_event ''2''" and f = None and evs = "[red_blue_event]"
      and d = ?d and up = 0 and sk = 0 and act = "[]"]
  from t1 have "best_of (home_quotes red_blue_event) (bestHome (best_prices red_blue_event))"
    "best_of (away_quotes red_blue_event) (bestAway (best_prices red_blue_event))"
    "best_of (draw_quotes red_blue_event) (bestDraw (best_prices red_blue_event))"
    by blast+
  then have b: "bestHome (best_prices red_blue_event) = Some (Fin 2)"
    "bestAway (best_prices red_blue_event) = Some (Fin (9 / 5))"
    "bestDraw (best_prices red_blue_event) = None"
    unfolding q by (auto simp: best_of_def js_le_def split: option.splits)
  then have bp: "best_prices red_blue_event = \<lparr>bestHome = Some (Fin 2), bestDraw = None, bestAway = Some (Fin (9 / 5))\<rparr>"
    by (cases "best_prices red_blue_event") simp
  have "bestHome (best_prices (unpriced_event ''2'')) = None"
    by (simp add: best_prices_def unpriced_event_def)
  with t2 have s2: "sync_events None [unpriced_event ''2'', red_blue_event] ?d 0 0 []
      = sync_events None [red_blue_event] ?d 0 (0 + 1) []"
    by blast
  have "truthy_opt (bestHome (best_prices red_blue_event)) \<and> truthy_opt (bestAway (best_prices red_blue_event))
      \<and> tick None = Some None"
    by (simp add: b truthy_opt_def truthy_def)
  with t1 have s1: "sync_events None [red_blue_event] ?d 0 1 []
      = sync_events None [] (upsert red_blue_event (best_prices red_blue_event) ?d) (0 + 1) 1 ([] @ [externalId red_blue_event])"
    by blast
  have "upsert red_blue_event (best_prices red_blue_event) ?d = store 100 [] [red_blue]"
    unfolding bp by (simp add: upsert_def excluded_def blank_game_def externalId_def red_blue_event_def
        ex_defs truthy_opt_def)
  with s1 s2 have "sync_events None [unpriced_event ''2'', red_blue_event] ?d 0 0 []
       = (store 100 [] [red_blue], Some (None, 1, 1, [''odds_1'']))"
    by (simp add: externalId_def red_blue_event_def)
  with q bp show ?thesis by simp
qed

section \<open>Reconciliation: upsert and prune\<close>














lemma priced_red_blue_event [simp]: "priced red_blue_event" "priced green_gold_event"
  by (simp_all add: priced_def green_gold_event_def red_blue_event_def sync_defs truthy_opt_def truthy_def)

lemma unpriced_event [simp]: "\<not> priced (unpriced_event i)"
  by (simp add: priced_def unpriced_event_def sync_defs truthy_opt_def)





section \<open>The ledger over placements and settlements\<close>






















end
